theory Spec2Isabelle
  imports Complex_Main "HOL-Library.Log_Nat"
begin

section \<open>Python values used by the GM bot\<close>

subsection \<open>Strings\<close>

text \<open>
  A Python \<open>str\<close> is modelled by its UTF-8 bytes. The bot only ever looks for ASCII
  keywords in a lower-cased message, compares lower-cased addresses and strips the ASCII
  prefix \<open>0x\<close>; an ASCII byte occurs in UTF-8 only as that ASCII character, so these
  tests give the same answer on bytes as on code points. \<open>lower\<close> maps the ASCII
  capitals; the two non-ASCII code points whose lower case contains an ASCII letter
  (U+212A to \<open>k\<close>, U+0130 to \<open>i\<close> followed by U+0307) cannot complete any of the
  keywords searched for.
\<close>

definition lower_char :: "char \<Rightarrow> char" where
  "lower_char c =
     (case map_of (zip ''ABCDEFGHIJKLMNOPQRSTUVWXYZ'' ''abcdefghijklmnopqrstuvwxyz'') c of
        Some l \<Rightarrow> l
      | None \<Rightarrow> c)"

definition lower :: "string \<Rightarrow> string" where
  "lower s = map lower_char s"

fun startswith :: "string \<Rightarrow> string \<Rightarrow> bool" where
  "startswith s [] = True"
| "startswith [] (p # ps) = False"
| "startswith (c # s) (p # ps) = (c = p \<and> startswith s ps)"

text \<open>\<open>py_in needle s\<close> is Python's \<open>needle in s\<close> on strings.\<close>

fun py_in :: "string \<Rightarrow> string \<Rightarrow> bool" where
  "py_in needle [] = (needle = [])"
| "py_in needle (c # s) = (startswith (c # s) needle \<or> py_in needle s)"

subsection \<open>Floats\<close>

text \<open>
  A finite Python \<open>float\<close> is an IEEE 754 double, modelled by its exact rational
  value. \<open>round_double\<close> is rounding to the nearest double, ties to even: 53 significant
  bits, the exponent of the last bit not below \<open>-1074\<close> (gradual underflow).
  \<open>ilog2 x\<close> is the binary exponent of a positive \<open>x\<close>, the \<open>e\<close> with
  \<open>2 ^ e \<le> x < 2 ^ (e + 1)\<close>. A rounded result with an exponent above 1023, that is of
  magnitude \<open>2 ^ 1024\<close> or more, is an overflow (\<open>is_inf\<close>), tested where it can occur.
\<close>

definition pow2 :: "int \<Rightarrow> rat" where
  "pow2 e = (if 0 \<le> e then 2 ^ nat e else 1 / 2 ^ nat (- e))"

definition ilog2 :: "rat \<Rightarrow> int" where
  "ilog2 x = (if 1 \<le> x then bitlen \<lfloor>x\<rfloor> - 1 else - bitlen (\<lceil>1 / x\<rceil> - 1))"

definition round_half_even :: "rat \<Rightarrow> int" where
  "round_half_even q =
     (let f = \<lfloor>q\<rfloor>; r = q - of_int f
      in if r < 1 / 2 \<or> (r = 1 / 2 \<and> even f) then f else f + 1)"

definition round_double_pos :: "rat \<Rightarrow> rat" where
  "round_double_pos x =
     (let s = pow2 (max (ilog2 x - 52) (- 1074))
      in of_int (round_half_even (x / s)) * s)"

definition round_double :: "rat \<Rightarrow> rat" where
  "round_double x =
     (if x = 0 then 0 else if 0 < x then round_double_pos x else - round_double_pos (- x))"

definition is_inf :: "rat \<Rightarrow> bool" where
  "is_inf y = (y \<noteq> 0 \<and> 1024 \<le> ilog2 \<bar>y\<bar>)"

text \<open>\<open>int(y)\<close> on a finite float truncates towards zero.\<close>

definition trunc :: "rat \<Rightarrow> int" where
  "trunc y = (if 0 \<le> y then \<lfloor>y\<rfloor> else \<lceil>y\<rceil>)"

text \<open>
  A JSON number is read as an \<open>int\<close> when it has no fraction or exponent and as a
  \<open>float\<close> otherwise; \<open>NaN\<close> and the infinities are outside this type.
\<close>

datatype py_number = PyInt int | PyFloat rat

text \<open>
  \<open>int(n * m)\<close> for an \<open>int\<close> \<open>n\<close>: exact when \<open>m\<close> is an \<open>int\<close>; for a
  \<open>float\<close>, \<open>n\<close> is converted to the nearest double (OverflowError when there is
  none), the product is rounded to the nearest double, and \<open>int\<close> of an infinite
  product raises OverflowError. An exception is its message, \<open>str(e)\<close>.
\<close>

definition int_times :: "int \<Rightarrow> py_number \<Rightarrow> string + int" where
  "int_times n m =
     (case m of
        PyInt k \<Rightarrow> Inr (n * k)
      | PyFloat y \<Rightarrow>
          (let x = round_double (of_int n)
           in if is_inf x then Inl ''int too large to convert to float''
              else (let z = round_double (x * y)
                    in if is_inf z then Inl ''cannot convert float infinity to integer''
                       else Inr (trunc z))))"

subsection \<open>Number formatting\<close>

text \<open>The decimal digits of a non-negative \<open>int\<close>.\<close>

definition digit_char :: "int \<Rightarrow> char" where
  "digit_char d = ''0123456789'' ! nat d"

function str_nat :: "int \<Rightarrow> string" where
  "str_nat n = (if n < 10 then [digit_char n] else str_nat (n div 10) @ [digit_char (n mod 10)])"
  by pat_completeness auto
termination
  by (relation "measure nat") auto

declare str_nat.simps [simp del]

definition zfill :: "nat \<Rightarrow> string \<Rightarrow> string" where
  "zfill w s = replicate (w - length s) CHR ''0'' @ s"

text \<open>
  \<open>format(x, '.6f')\<close> for a non-negative \<open>Decimal\<close>, \<open>int\<close> or \<open>float\<close>: the
  exact value rounded to six decimals, ties to even.
\<close>

definition format_6f :: "rat \<Rightarrow> string" where
  "format_6f x =
     (let n = round_half_even (x * 1000000)
      in str_nat (n div 1000000) @ ''.'' @ zfill 6 (str_nat (n mod 1000000)))"

section \<open>Data model\<close>

text \<open>
  \<open>WalletStatus\<close> holds seven pairwise different string constants that the bot only
  stores and compares for equality.
\<close>

datatype wallet_status =
  SUCCESS | FAILED | INSUFFICIENT_BALANCE | NETWORK_ERROR | ALREADY_GMED | TIMEOUT
  | INVALID_CONTRACT

record wallet =
  address :: string
  private_key :: string
  proxy :: "string option"

record config =
  chain_id :: int
  max_retries :: int
  retry_delay :: int
  gas_price_multiplier :: py_number
  max_gas_price_gwei :: int
  delay_enabled :: bool
  min_seconds :: int
  max_seconds :: int
  wallets :: "wallet list"

record transaction =
  tx_from :: string
  tx_gas :: int
  tx_gasPrice :: int
  tx_nonce :: int
  tx_chainId :: int

record receipt =
  receipt_status :: int
  receipt_gasUsed :: int

text \<open>What the bot does to the outside world, in order.\<close>

datatype event =
  ProcessWallet string int
  | GetBalance string
  | GetTransactionCount string
  | GetGasPrice
  | BuildTransaction transaction
  | EstimateGas transaction
  | SignTransaction transaction string
  | SendRawTransaction string
  | WaitForTransactionReceipt string int
  | Sleep int

text \<open>
  The chain client's answers during one attempt: each call returns a value (\<open>Inr\<close>) or
  raises an exception with a message (\<open>Inl\<close>).
\<close>

record rpc =
  get_balance :: "string + int"
  get_transaction_count :: "string + int"
  gas_price :: "string + int"
  build_transaction :: "string + unit"
  eth_estimate_gas :: "string + int"
  sign_transaction :: "string + string"
  send_raw_transaction :: "string + string"
  wait_for_transaction_receipt :: "string + receipt"

text \<open>
  The environment of a run: the checksum conversion of web3 (it raises on a string that
  is not an address), the chain's answers for the attempt \<open>n\<close> of the wallet at index
  \<open>i\<close>, the random source behind \<open>random.randint\<close> and the clock.
\<close>

record env =
  to_checksum_address :: "string \<Rightarrow> string + string"
  chain :: "nat \<Rightarrow> int \<Rightarrow> rpc"
  random :: "nat \<Rightarrow> int"
  now :: "nat \<Rightarrow> int \<Rightarrow> string"

datatype py_exception = UnboundLocalError string | Raised string

section \<open>Calls that log, return or raise\<close>

type_synonym 'a io = "event list \<times> (string + 'a)"

definition return_io :: "'a \<Rightarrow> 'a io" where
  "return_io x = ([], Inr x)"

definition raise_io :: "string \<Rightarrow> 'a io" where
  "raise_io e = ([], Inl e)"

definition lift_io :: "string + 'a \<Rightarrow> 'a io" where
  "lift_io r = ([], r)"

definition call_io :: "event \<Rightarrow> string + 'a \<Rightarrow> 'a io" where
  "call_io ev r = ([ev], r)"

definition bind_io :: "'a io \<Rightarrow> ('a \<Rightarrow> 'b io) \<Rightarrow> 'b io" where
  "bind_io m f =
     (case m of
        (evs, Inl e) \<Rightarrow> (evs, Inl e)
      | (evs, Inr x) \<Rightarrow> (case f x of (evs', r) \<Rightarrow> (evs @ evs', r)))"

section \<open>web3 unit conversions\<close>

definition MAX_WEI :: int where
  "MAX_WEI = 2 ^ 256 - 1"

text \<open>
  \<open>from_wei(number, unit)\<close> returns 0 for 0 and raises ValueError outside
  \<open>0 .. MAX_WEI\<close>; \<open>to_wei(number, 'gwei')\<close> of an integer raises ValueError when the
  result is outside \<open>0 .. MAX_WEI\<close>.
\<close>

definition from_wei :: "int \<Rightarrow> int \<Rightarrow> string + rat" where
  "from_wei number unit_value =
     (if number = 0 then Inr 0
      else if number < 0 \<or> number > MAX_WEI
      then Inl ''value must be between 1 and 2**256 - 1''
      else Inr (of_int number / of_int unit_value))"

definition ether :: int where
  "ether = 10 ^ 18"

definition gwei :: int where
  "gwei = 10 ^ 9"

definition to_wei_gwei :: "int \<Rightarrow> string + int" where
  "to_wei_gwei number =
     (if number * gwei < 0 \<or> number * gwei > MAX_WEI
      then Inl ''Resulting wei value must be between 1 and 2**256 - 1''
      else Inr (number * gwei))"

section \<open>GMBot\<close>

subsection \<open>check_balance, check_can_gm, estimate_gas\<close>

text \<open>
  \<open>check_balance\<close> returns \<open>None\<close> on any exception of its body: the checksum
  conversion, the balance query or the conversion to ether.
\<close>

definition check_balance :: "env \<Rightarrow> rpc \<Rightarrow> string \<Rightarrow> (rat option) io" where
  "check_balance e r addr =
     (case to_checksum_address e addr of
        Inl _ \<Rightarrow> return_io None
      | Inr a \<Rightarrow>
          (case get_balance r of
             Inl _ \<Rightarrow> ([GetBalance a], Inr None)
           | Inr balance \<Rightarrow>
               (case from_wei balance ether of
                  Inl _ \<Rightarrow> ([GetBalance a], Inr None)
                | Inr balance_eth \<Rightarrow> ([GetBalance a], Inr (Some balance_eth)))))"

definition check_can_gm :: "string \<Rightarrow> bool \<times> int" where
  "check_can_gm addr = (True, 0)"

text \<open>The literal \<open>1.2\<close> is the double nearest to 12/10.\<close>

definition estimate_gas :: "rpc \<Rightarrow> transaction \<Rightarrow> int io" where
  "estimate_gas r tx =
     ([EstimateGas tx],
      Inr (case eth_estimate_gas r of
             Inl _ \<Rightarrow> 100000
           | Inr gas_estimate \<Rightarrow>
               (case int_times gas_estimate (PyFloat (round_double (12 / 10))) of
                  Inl _ \<Rightarrow> 100000
                | Inr limit \<Rightarrow> limit)))"

subsection \<open>send_gm_transaction\<close>

definition min_balance :: rat where
  "min_balance = round_double (1 / 10000)"

text \<open>
  Formatting \<open>None\<close> with \<open>:.6f\<close> raises TypeError with this message.
\<close>

definition format_none_error :: string where
  "format_none_error = ''unsupported format string passed to NoneType.__format__''"

definition balance_message :: "rat \<Rightarrow> string" where
  "balance_message balance_eth =
     [CHR 0xD0, CHR 0x91, CHR 0xD0, CHR 0xB0, CHR 0xD0, CHR 0xBB, CHR 0xD0, CHR 0xB0,
      CHR 0xD0, CHR 0xBD, CHR 0xD1, CHR 0x81] @ '': '' @ format_6f balance_eth
     @ '' ETH ('' @ [CHR 0xD0, CHR 0xBD, CHR 0xD1, CHR 0x83, CHR 0xD0, CHR 0xB6, CHR 0xD0,
      CHR 0xBD, CHR 0xD0, CHR 0xBE] @ '' '' @ [CHR 0xD0, CHR 0xBC, CHR 0xD0, CHR 0xB8,
      CHR 0xD0, CHR 0xBD, CHR 0xD0, CHR 0xB8, CHR 0xD0, CHR 0xBC, CHR 0xD1, CHR 0x83,
      CHR 0xD0, CHR 0xBC] @ '' '' @ format_6f min_balance @ '' ETH)''"

definition str_int :: "int \<Rightarrow> string" where
  "str_int i = (if i < 0 then ''-'' @ str_nat (- i) else str_nat i)"

definition next_gm_message :: "int \<Rightarrow> string" where
  "next_gm_message wait_seconds =
     (let hours = wait_seconds div 3600; minutes = (wait_seconds mod 3600) div 60
      in [CHR 0xD0, CHR 0xA1, CHR 0xD0, CHR 0xBB, CHR 0xD0, CHR 0xB5, CHR 0xD0, CHR 0xB4,
          CHR 0xD1, CHR 0x83, CHR 0xD1, CHR 0x8E, CHR 0xD1, CHR 0x89, CHR 0xD0, CHR 0xB8,
          CHR 0xD0, CHR 0xB9] @ '' GM '' @ [CHR 0xD1, CHR 0x87, CHR 0xD0, CHR 0xB5, CHR 0xD1,
          CHR 0x80, CHR 0xD0, CHR 0xB5, CHR 0xD0, CHR 0xB7] @ '' '' @ str_int hours
         @ [CHR 0xD1, CHR 0x87] @ '' '' @ str_int minutes @ [CHR 0xD0, CHR 0xBC])"

definition reverted_message :: "string \<Rightarrow> string" where
  "reverted_message tx_hash_hex =
     [CHR 0xD0, CHR 0xA2, CHR 0xD1, CHR 0x80, CHR 0xD0, CHR 0xB0, CHR 0xD0, CHR 0xBD,
      CHR 0xD0, CHR 0xB7, CHR 0xD0, CHR 0xB0, CHR 0xD0, CHR 0xBA, CHR 0xD1, CHR 0x86,
      CHR 0xD0, CHR 0xB8, CHR 0xD1, CHR 0x8F] @ '' reverted. TX: '' @ tx_hash_hex"

text \<open>
  Lines 246 to 254: the ceiling, the multiplier and the two log lines, which convert the
  price with \<open>from_wei\<close> and so raise on a price outside \<open>0 .. MAX_WEI\<close>.
\<close>

definition apply_gas_policy :: "int \<Rightarrow> int \<Rightarrow> py_number \<Rightarrow> string + int" where
  "apply_gas_policy current max_gas_price multiplier =
     (case (if current > max_gas_price
            then (case from_wei current gwei of Inl e \<Rightarrow> Inl e | Inr _ \<Rightarrow> Inr max_gas_price)
            else Inr current) of
        Inl e \<Rightarrow> Inl e
      | Inr capped \<Rightarrow>
          (case int_times capped multiplier of
             Inl e \<Rightarrow> Inl e
           | Inr effective \<Rightarrow>
               (case from_wei effective gwei of Inl e \<Rightarrow> Inl e | Inr _ \<Rightarrow> Inr effective)))"

text \<open>The body of the \<open>try\<close> block, lines 222 to 292.\<close>

definition guarded_block ::
    "config \<Rightarrow> env \<Rightarrow> rpc \<Rightarrow> string \<Rightarrow> string \<Rightarrow> (bool \<times> wallet_status \<times> string) io" where
  "guarded_block cfg e r addr key =
     bind_io (check_balance e r addr) (\<lambda>balance_eth.
     case balance_eth of
       None \<Rightarrow> raise_io format_none_error
     | Some b \<Rightarrow>
        if b < min_balance
        then return_io (False, INSUFFICIENT_BALANCE, balance_message b)
        else (case check_can_gm addr of (can_gm, wait_seconds) \<Rightarrow>
          if \<not> can_gm
          then return_io (False, ALREADY_GMED, next_gm_message wait_seconds)
          else
            bind_io (call_io (GetTransactionCount addr) (get_transaction_count r)) (\<lambda>nonce.
            bind_io (call_io GetGasPrice (gas_price r)) (\<lambda>current.
            bind_io (lift_io (to_wei_gwei (max_gas_price_gwei cfg))) (\<lambda>max_gas_price.
            bind_io (lift_io (apply_gas_policy current max_gas_price
                       (gas_price_multiplier cfg))) (\<lambda>effective.
            let tx = \<lparr>tx_from = addr, tx_gas = 100000, tx_gasPrice = effective,
                      tx_nonce = nonce, tx_chainId = chain_id cfg\<rparr> in
            bind_io (call_io (BuildTransaction tx) (build_transaction r)) (\<lambda>_.
            bind_io (estimate_gas r tx) (\<lambda>gas_limit.
            let tx' = tx\<lparr>tx_gas := gas_limit\<rparr> in
            bind_io (call_io (SignTransaction tx' key) (sign_transaction r)) (\<lambda>signed_txn.
            bind_io (call_io (SendRawTransaction signed_txn) (send_raw_transaction r))
              (\<lambda>tx_hash_hex.
            bind_io (call_io (WaitForTransactionReceipt tx_hash_hex 120)
                       (wait_for_transaction_receipt r)) (\<lambda>rcpt.
            if receipt_status rcpt = 1
            then return_io (True, SUCCESS, ''TX: '' @ tx_hash_hex)
            else return_io (False, FAILED, reverted_message tx_hash_hex))))))))))))"

text \<open>The \<open>except Exception\<close> handler, lines 294 to 306.\<close>

definition classify_error :: "string \<Rightarrow> bool \<times> wallet_status \<times> string" where
  "classify_error error_msg =
     (if py_in ''insufficient funds'' (lower error_msg)
      then (False, INSUFFICIENT_BALANCE, error_msg)
      else if py_in ''already'' (lower error_msg) \<or> py_in ''wait'' (lower error_msg)
      then (False, ALREADY_GMED, error_msg)
      else if py_in ''timeout'' (lower error_msg)
      then (False, TIMEOUT, error_msg)
      else (False, FAILED, error_msg))"

definition strip_0x :: "string \<Rightarrow> string" where
  "strip_0x key = (if startswith key ''0x'' \<or> startswith key ''0X'' then drop 2 key else key)"

text \<open>
  The checksum conversion of the wallet's address comes before the \<open>try\<close>: its
  exception leaves \<open>send_gm_transaction\<close>.
\<close>

definition send_gm_transaction ::
    "config \<Rightarrow> env \<Rightarrow> rpc \<Rightarrow> wallet
      \<Rightarrow> py_exception + (event list \<times> (bool \<times> wallet_status \<times> string))" where
  "send_gm_transaction cfg e r wallet_data =
     (case to_checksum_address e (address wallet_data) of
        Inl msg \<Rightarrow> Inl (Raised msg)
      | Inr addr \<Rightarrow>
          (case guarded_block cfg e r addr (strip_0x (private_key wallet_data)) of
             (evs, Inr result) \<Rightarrow> Inr (evs, result)
           | (evs, Inl error_msg) \<Rightarrow> Inr (evs, classify_error error_msg)))"

subsection \<open>process_wallet and run\<close>

record attempt_result =
  res_address :: string
  res_attempt :: int
  res_status :: wallet_status
  res_message :: string
  res_timestamp :: string

record failed_wallet =
  failed_address :: string
  last_status :: wallet_status
  last_error :: string

text \<open>The attributes of the bot that \<open>run\<close> changes, and what it did (\<open>log\<close>).\<close>

record bot =
  results :: "attempt_result list"
  failed_wallets :: "failed_wallet list"
  log :: "event list"

text \<open>
  The local variables of \<open>run\<close> that outlive an iteration of its loops; \<open>None\<close> is a
  variable that has not been assigned yet.
\<close>

record locals =
  success :: bool
  status :: "wallet_status option"
  error_message :: "string option"

definition process_wallet ::
    "config \<Rightarrow> env \<Rightarrow> rpc \<Rightarrow> wallet \<Rightarrow> int
      \<Rightarrow> py_exception + (event list \<times> (bool \<times> wallet_status \<times> string))" where
  "process_wallet cfg e r wallet_data attempt =
     (case send_gm_transaction cfg e r wallet_data of
        Inl x \<Rightarrow> Inl x
      | Inr (evs, result) \<Rightarrow> Inr (ProcessWallet (address wallet_data) attempt # evs, result))"

text \<open>
  \<open>time.sleep\<close> raises ValueError on a negative length. A loop returns the state it
  reached and the exception that ended it, if any.
\<close>

definition sleep_error :: py_exception where
  "sleep_error = Raised ''sleep length must be non-negative''"

text \<open>The loop \<open>for attempt in range(1, max_retries + 1)\<close>, lines 343 to 363.\<close>

fun attempt_loop ::
    "config \<Rightarrow> env \<Rightarrow> nat \<Rightarrow> wallet \<Rightarrow> int list \<Rightarrow> bot \<times> locals
      \<Rightarrow> (bot \<times> locals) \<times> py_exception option" where
  "attempt_loop cfg e index wallet_data [] s = (s, None)"
| "attempt_loop cfg e index wallet_data (attempt # rest) (b, l) =
     (case process_wallet cfg e (chain e index attempt) wallet_data attempt of
        Inl x \<Rightarrow> ((b, l), Some x)
      | Inr (evs, (ok, st, msg)) \<Rightarrow>
          (let l' = \<lparr>success = ok, status = Some st, error_message = Some msg\<rparr>;
               result = \<lparr>res_address = address wallet_data, res_attempt = attempt,
                         res_status = st, res_message = msg,
                         res_timestamp = now e index attempt\<rparr>;
               b' = b\<lparr>results := results b @ [result], log := log b @ evs\<rparr>
           in if ok \<or> st = ALREADY_GMED then ((b', l'), None)
              else if attempt < max_retries cfg
              then (if retry_delay cfg < 0 then ((b', l'), Some sleep_error)
                    else attempt_loop cfg e index wallet_data rest
                           (b'\<lparr>log := log b' @ [Sleep (retry_delay cfg)]\<rparr>, l'))
              else attempt_loop cfg e index wallet_data rest (b', l')))"

text \<open>
  The delay before a wallet that is not the first, lines 338 to 341: \<open>random.randint\<close>
  raises ValueError on an empty range and else returns some value of the range.
\<close>

definition inter_wallet_delay :: "config \<Rightarrow> env \<Rightarrow> nat \<Rightarrow> py_exception + event list" where
  "inter_wallet_delay cfg e index =
     (if delay_enabled cfg \<and> index > 0
      then (if max_seconds cfg < min_seconds cfg
            then Inl (Raised ''empty range for randrange()'')
            else (let delay = min_seconds cfg
                        + random e index mod (max_seconds cfg - min_seconds cfg + 1)
                  in if delay < 0 then Inl sleep_error else Inr [Sleep delay]))
      else Inr [])"

text \<open>The loop over \<open>enumerate(self.config['wallets'])\<close>, lines 333 to 370.\<close>

fun wallet_loop ::
    "config \<Rightarrow> env \<Rightarrow> (nat \<times> wallet) list \<Rightarrow> bot \<times> locals
      \<Rightarrow> (bot \<times> locals) \<times> py_exception option" where
  "wallet_loop cfg e [] s = (s, None)"
| "wallet_loop cfg e ((index, wallet_data) # rest) (b, l) =
     (let l0 = l\<lparr>success := False\<rparr> in
      case inter_wallet_delay cfg e index of
        Inl x \<Rightarrow> ((b, l0), Some x)
      | Inr evs \<Rightarrow>
          (case attempt_loop cfg e index wallet_data [1..max_retries cfg]
                  (b\<lparr>log := log b @ evs\<rparr>, l0) of
             (s, Some x) \<Rightarrow> (s, Some x)
           | ((b', l'), None) \<Rightarrow>
               if \<not> success l'
               then (case status l' of
                       None \<Rightarrow> ((b', l'), Some (UnboundLocalError ''status''))
                     | Some st \<Rightarrow>
                         if st \<noteq> ALREADY_GMED
                         then (case error_message l' of
                                 None \<Rightarrow> ((b', l'), Some (UnboundLocalError ''error_message''))
                               | Some msg \<Rightarrow>
                                   wallet_loop cfg e rest
                                     (b'\<lparr>failed_wallets := failed_wallets b'
                                          @ [\<lparr>failed_address = address wallet_data,
                                              last_status = st, last_error = msg\<rparr>]\<rparr>, l'))
                         else wallet_loop cfg e rest (b', l'))
               else wallet_loop cfg e rest (b', l')))"

definition enumerate_wallets :: "wallet list \<Rightarrow> (nat \<times> wallet) list" where
  "enumerate_wallets ws = zip [0..<length ws] ws"

subsection \<open>Summary and saved files\<close>

record summary =
  total :: nat
  successful :: nat
  already_gmed :: nat
  failed :: nat

definition summary_of :: "config \<Rightarrow> bot \<Rightarrow> summary" where
  "summary_of cfg b =
     \<lparr>total = length (wallets cfg),
      successful = length (filter (\<lambda>r. res_status r = SUCCESS) (results b)),
      already_gmed = length (filter (\<lambda>r. res_status r = ALREADY_GMED) (results b)),
      failed = length (failed_wallets b)\<rparr>"

record saved_wallet =
  saved_address :: string
  saved_private_key :: string
  saved_proxy :: "string option"
  saved_last_error :: string
  saved_last_status :: wallet_status

text \<open>
  The inner loop of lines 429 to 438: the first wallet of the configuration whose
  lower-cased address is that of the failed wallet gives one entry; no match gives none.
\<close>

fun find_original :: "wallet list \<Rightarrow> failed_wallet \<Rightarrow> saved_wallet list" where
  "find_original [] f = []"
| "find_original (w # ws) f =
     (if lower (address w) = lower (failed_address f)
      then [\<lparr>saved_address = address w, saved_private_key = private_key w,
             saved_proxy = proxy w, saved_last_error = last_error f,
             saved_last_status = last_status f\<rparr>]
      else find_original ws f)"

record failed_file =
  file_count :: nat
  file_wallets :: "saved_wallet list"

record saved =
  saved_results :: "attempt_result list"
  saved_failed_wallets :: "failed_wallet list"
  saved_summary :: summary
  saved_failed_file :: "failed_file option"

definition save_results :: "config \<Rightarrow> bot \<Rightarrow> saved" where
  "save_results cfg b =
     \<lparr>saved_results = results b,
      saved_failed_wallets = failed_wallets b,
      saved_summary = summary_of cfg b,
      saved_failed_file =
        (if failed_wallets b \<noteq> []
         then Some \<lparr>file_count = length (failed_wallets b),
                    file_wallets = concat (map (find_original (wallets cfg)) (failed_wallets b))\<rparr>
         else None)\<rparr>"

definition new_bot :: bot where
  "new_bot = \<lparr>results = [], failed_wallets = [], log = []\<rparr>"

definition no_locals :: locals where
  "no_locals = \<lparr>success = False, status = None, error_message = None\<rparr>"

text \<open>
  \<open>run\<close> returns the bot as it leaves it, with the exception that ended the run or
  the files that \<open>save_results\<close> writes.
\<close>

definition run :: "config \<Rightarrow> env \<Rightarrow> bot \<times> (py_exception + saved)" where
  "run cfg e =
     (case wallet_loop cfg e (enumerate_wallets (wallets cfg)) (new_bot, no_locals) of
        ((b, l), Some x) \<Rightarrow> (b, Inl x)
      | ((b, l), None) \<Rightarrow> (b, Inr (save_results cfg b)))"

section \<open>Example inputs\<close>

text \<open>
  The default configuration with one wallet, a chain that answers every call, and a
  checksum conversion that rejects the placeholder address \<open>0x...\<close> of the default
  configuration file.
\<close>

definition example_wallet :: wallet where
  "example_wallet = \<lparr>address = ''0xab'', private_key = ''0x11'', proxy = None\<rparr>"

definition placeholder_wallet :: wallet where
  "placeholder_wallet = \<lparr>address = ''0x...'', private_key = ''key'', proxy = None\<rparr>"

definition example_config :: config where
  "example_config =
     \<lparr>chain_id = 57073, max_retries = 3, retry_delay = 5,
      gas_price_multiplier = PyFloat (round_double (11 / 10)), max_gas_price_gwei = 50,
      delay_enabled = True, min_seconds = 30, max_seconds = 80,
      wallets = [example_wallet]\<rparr>"

definition good_rpc :: rpc where
  "good_rpc =
     \<lparr>get_balance = Inr 1000000000000000000, get_transaction_count = Inr 7,
      gas_price = Inr 40000000000, build_transaction = Inr (),
      eth_estimate_gas = Inr 50000, sign_transaction = Inr ''signed'',
      send_raw_transaction = Inr ''0xabc'',
      wait_for_transaction_receipt = Inr \<lparr>receipt_status = 1, receipt_gasUsed = 40000\<rparr>\<rparr>"

definition example_env :: env where
  "example_env =
     \<lparr>to_checksum_address = (\<lambda>a. if a = ''0x...'' then Inl ''invalid address'' else Inr a),
      chain = (\<lambda>i n. good_rpc), random = (\<lambda>i. 0), now = (\<lambda>i n. ''2026'')\<rparr>"

section \<open>Properties\<close>

subsection \<open>Strings and the guarded block\<close>

lemma min_balance_value: "min_balance = 7378697629483821 / 73786976294838206464"
  unfolding min_balance_def by code_simp

lemma startswith_iff: "startswith s p \<longleftrightarrow> (\<exists>post. s = p @ post)"
  by (induction s p rule: startswith.induct) auto

lemma py_in_iff: "py_in needle s \<longleftrightarrow> (\<exists>pre post. s = pre @ needle @ post)"
proof (induction s)
  case Nil
  then show ?case by auto
next
  case (Cons c s)
  show ?case
  proof
    assume "py_in needle (c # s)"
    then consider "startswith (c # s) needle" | "py_in needle s" by auto
    then show "\<exists>pre post. c # s = pre @ needle @ post"
    proof cases
      case 1
      then obtain post where "c # s = needle @ post" by (auto simp: startswith_iff)
      then have "c # s = [] @ needle @ post" by simp
      then show ?thesis by blast
    next
      case 2
      then obtain pre post where "s = pre @ needle @ post" using Cons.IH by auto
      then have "c # s = (c # pre) @ needle @ post" by simp
      then show ?thesis by blast
    qed
  next
    assume "\<exists>pre post. c # s = pre @ needle @ post"
    then obtain pre post where eq: "c # s = pre @ needle @ post" by blast
    show "py_in needle (c # s)"
    proof (cases pre)
      case Nil
      with eq have "startswith (c # s) needle" by (auto simp: startswith_iff)
      then show ?thesis by simp
    next
      case (Cons d pre')
      with eq have "s = pre' @ needle @ post" by simp
      then have "py_in needle s" using Cons.IH by blast
      then show ?thesis by simp
    qed
  qed
qed

lemma check_balance_returns: "\<exists>evs b. check_balance e r a = (evs, Inr b)"
  by (auto simp: check_balance_def return_io_def split: sum.splits)

lemma guarded_block_normal:
  assumes "guarded_block cfg e r a k = (evs, Inr (ok, st, msg))"
  shows "st \<noteq> ALREADY_GMED \<and> (ok \<longleftrightarrow> st = SUCCESS)"
  using assms check_balance_returns[of e r a]
  by (auto simp: guarded_block_def check_can_gm_def return_io_def raise_io_def
      call_io_def lift_io_def estimate_gas_def Let_def bind_io_def
      split: option.splits if_splits sum.splits prod.splits)

lemma classify_error_cases:
  "classify_error msg =
     (False,
      (if py_in ''insufficient funds'' (lower msg) then INSUFFICIENT_BALANCE
       else if py_in ''already'' (lower msg) \<or> py_in ''wait'' (lower msg) then ALREADY_GMED
       else if py_in ''timeout'' (lower msg) then TIMEOUT
       else FAILED),
      msg)"
  by (simp add: classify_error_def)


lemma example_env_simps [simp]:
  "to_checksum_address example_env a = (if a = ''0x...'' then Inl ''invalid address'' else Inr a)"
  "chain example_env i n = good_rpc"
  "random example_env i = 0"
  "now example_env i n = ''2026''"
  by (simp_all add: example_env_def)

lemma example_wallet_simps [simp]:
  "address example_wallet = ''0xab''"
  "private_key example_wallet = ''0x11''"
  "proxy example_wallet = None"
  "address placeholder_wallet = ''0x...''"
  by (simp_all add: example_wallet_def placeholder_wallet_def)

lemma example_nonce_raises:
  "guarded_block example_config example_env
      (good_rpc\<lparr>get_transaction_count := Inl msg\<rparr>) ''0xab'' k =
    ([GetBalance ''0xab'', GetTransactionCount ''0xab''], Inl msg)"
  by (simp add: guarded_block_def check_balance_def good_rpc_def
      from_wei_def ether_def MAX_WEI_def min_balance_value check_can_gm_def
      bind_io_def call_io_def)



subsection \<open>Where AlreadySubmittedToday comes from\<close>

text \<open>
  C8 (as amended): \<open>check_can_gm\<close> answers \<open>(True, 0)\<close> for every address, so the
  branch that returns AlreadySubmittedToday before any transaction is never taken, and an
  attempt has the outcome AlreadySubmittedToday only when the guarded block raised an
  exception whose message contains \<open>already\<close> or \<open>wait\<close> and not
  \<open>insufficient funds\<close>, whichever call raised it.
\<close>

theorem already_gmed_only_from_exception:
  "check_can_gm a0 = (True, 0)
   \<and> (send_gm_transaction cfg e r w = Inr (evs, ok, ALREADY_GMED, msg)
        \<longrightarrow> \<not> ok
            \<and> (\<exists>a. to_checksum_address e (address w) = Inr a
                  \<and> guarded_block cfg e r a (strip_0x (private_key w)) = (evs, Inl msg))
            \<and> \<not> (\<exists>pre post. lower msg = pre @ ''insufficient funds'' @ post)
            \<and> ((\<exists>pre post. lower msg = pre @ ''already'' @ post)
                 \<or> (\<exists>pre post. lower msg = pre @ ''wait'' @ post)))"
proof -
  have "\<not> ok \<and> (\<exists>a. to_checksum_address e (address w) = Inr a
                  \<and> guarded_block cfg e r a (strip_0x (private_key w)) = (evs, Inl msg))
            \<and> \<not> py_in ''insufficient funds'' (lower msg)
            \<and> (py_in ''already'' (lower msg) \<or> py_in ''wait'' (lower msg))"
    if h: "send_gm_transaction cfg e r w = Inr (evs, ok, ALREADY_GMED, msg)"
  proof -
    from h obtain a where a: "to_checksum_address e (address w) = Inr a"
      by (auto simp: send_gm_transaction_def split: sum.splits)
    obtain evs' res where g: "guarded_block cfg e r a (strip_0x (private_key w)) = (evs', res)"
      by (cases "guarded_block cfg e r a (strip_0x (private_key w))")
    show ?thesis
    proof (cases res)
      case (Inl m)
      with h a g show ?thesis
        by (auto simp: send_gm_transaction_def classify_error_cases split: if_splits)
    next
      case (Inr result)
      with h a g have "guarded_block cfg e r a (strip_0x (private_key w))
          = (evs, Inr (ok, ALREADY_GMED, msg))"
        by (simp add: send_gm_transaction_def)
      then show ?thesis using guarded_block_normal by blast
    qed
  qed
  then show ?thesis
    unfolding py_in_iff [symmetric] by (auto simp: check_can_gm_def)
qed

theorem already_gmed_only_from_exception_witness:
  "send_gm_transaction example_config example_env
      (good_rpc\<lparr>get_transaction_count := Inl ''already known''\<rparr>) example_wallet =
    Inr ([GetBalance ''0xab'', GetTransactionCount ''0xab''], False, ALREADY_GMED, ''already known'')
   \<and> guarded_block example_config example_env
        (good_rpc\<lparr>get_transaction_count := Inl ''already known''\<rparr>) ''0xab'' ''11'' =
      ([GetBalance ''0xab'', GetTransactionCount ''0xab''], Inl ''already known'')"
  using already_gmed_only_from_exception [of "''0xab''" example_config example_env
      "good_rpc\<lparr>get_transaction_count := Inl ''already known''\<rparr>" example_wallet
      "[GetBalance ''0xab'', GetTransactionCount ''0xab'']" False "''already known''"]
  by (simp add: send_gm_transaction_def example_nonce_raises classify_error_def lower_def
      lower_char_def strip_0x_def)

text \<open>
  C8 as stated fails in its last part: the nonce lookup raising a rate-limit message gives
  AlreadySubmittedToday although no transaction was built, so nothing was reverted.
\<close>

theorem already_gmed_without_revert:
  "send_gm_transaction example_config example_env
      (good_rpc\<lparr>get_transaction_count := Inl ''Too many requests, please wait''\<rparr>)
      example_wallet =
    Inr ([GetBalance ''0xab'', GetTransactionCount ''0xab''], False, ALREADY_GMED,
         ''Too many requests, please wait'')"
  by (simp add: send_gm_transaction_def example_nonce_raises classify_error_def lower_def
      lower_char_def)

subsection \<open>The balance check\<close>

text \<open>
  C1, at the failing input: when the balance query raises, \<open>check_balance\<close> returns
  \<open>None\<close>, the message of the InsufficientBalance return formats \<open>None\<close> with
  \<open>:.6f\<close>, and the TypeError of that is classified as Failed. Only the balance was
  queried.
\<close>

theorem unavailable_balance_fails:
  "to_checksum_address e (address w) = Inr a \<Longrightarrow> get_balance r = Inl x \<Longrightarrow>
   \<exists>evs. send_gm_transaction cfg e r w =
           Inr (evs, False, FAILED, ''unsupported format string passed to NoneType.__format__'')
         \<and> (\<forall>ev \<in> set evs. \<exists>a'. ev = GetBalance a')"
  by (auto simp: send_gm_transaction_def guarded_block_def check_balance_def bind_io_def
      return_io_def raise_io_def format_none_error_def classify_error_def lower_def lower_char_def
      split: sum.splits)

theorem unavailable_balance_fails_witness:
  "to_checksum_address example_env (address example_wallet) = Inr ''0xab''
   \<and> get_balance (good_rpc\<lparr>get_balance := Inl ''connection refused''\<rparr>)
       = Inl ''connection refused''
   \<and> (\<exists>evs. send_gm_transaction example_config example_env
                (good_rpc\<lparr>get_balance := Inl ''connection refused''\<rparr>) example_wallet =
              Inr (evs, False, FAILED,
                   ''unsupported format string passed to NoneType.__format__'')
            \<and> (\<forall>ev \<in> set evs. \<exists>a'. ev = GetBalance a'))"
  using unavailable_balance_fails [of example_env example_wallet "''0xab''"
      "good_rpc\<lparr>get_balance := Inl ''connection refused''\<rparr>" "''connection refused''"
      example_config]
  by simp

text \<open>
  The other half of C1 holds: a balance below 0.0001 ether gives InsufficientBalance after
  the balance query alone.
\<close>

lemma low_balance_insufficient:
  assumes "to_checksum_address e (address w) = Inr a" "to_checksum_address e a = Inr a'"
    and "get_balance r = Inr wei" "0 \<le> wei" "wei \<le> MAX_WEI"
    and "(of_int wei :: rat) / 10 ^ 18 < 1 / 10000"
  shows "send_gm_transaction cfg e r w =
           Inr ([GetBalance a'], False, INSUFFICIENT_BALANCE,
                balance_message (of_int wei / 10 ^ 18))"
proof -
  have "(of_int wei :: rat) / 10 ^ 18 < min_balance"
    using assms(6) by (simp add: min_balance_value)
  then show ?thesis using assms(1-5)
    by (simp add: send_gm_transaction_def guarded_block_def check_balance_def bind_io_def
        return_io_def from_wei_def ether_def min_balance_value)
qed

end
